theory Spec2Isabelle
  imports Main
begin

section \<open>Python string operations used by the wrapper\<close>

text \<open>
  Table names are Python strings.  They are modelled as \<open>string\<close>; the only string
  operations of the module are \<open>str.endswith\<close>, the slice \<open>s[:-n]\<close> and concatenation,
  all of them against the ASCII literal \<open>'_data_pipeline_refresh'\<close>.
\<close>

definition endswith :: "string \<Rightarrow> string \<Rightarrow> bool" where
  \<comment> \<open>\<open>s.endswith(suf)\<close>: the last \<open>len(suf)\<close> characters of \<open>s\<close> are \<open>suf\<close>.\<close>
  "endswith s suf \<longleftrightarrow> length suf \<le> length s \<and> drop (length s - length suf) s = suf"

definition slice_to_neg :: "string \<Rightarrow> nat \<Rightarrow> string" where
  \<comment> \<open>\<open>s[:-n]\<close>: for \<open>n = 0\<close> the stop index is \<open>0\<close>; a stop before the start is clipped.\<close>
  "slice_to_neg s n = (if n = 0 then [] else take (length s - n) s)"

definition refresh_table_suffix :: string where
  \<comment> \<open>\<open>self.refresh_table_suffix\<close>, set once in \<open>__init__\<close>.\<close>
  "refresh_table_suffix = ''_data_pipeline_refresh''"

section \<open>Data model\<close>

datatype message_type = CreateMessage | UpdateMessage | DeleteMessage | RefreshMessage

datatype error = KeyError nat

text \<open>
  The binlog event type codes of \<open>pymysqlreplication.constants.BINLOG\<close> (version 2 row
  events) and, for comparison, the version 1 code of a write event, which the same
  library delivers as a \<open>WriteRowsEvent\<close> too.
\<close>

definition WRITE_ROWS_EVENT_V2 :: nat where "WRITE_ROWS_EVENT_V2 = 30"
definition UPDATE_ROWS_EVENT_V2 :: nat where "UPDATE_ROWS_EVENT_V2 = 31"
definition DELETE_ROWS_EVENT_V2 :: nat where "DELETE_ROWS_EVENT_V2 = 32"
definition WRITE_ROWS_EVENT_V1 :: nat where "WRITE_ROWS_EVENT_V1 = 23"

definition message_type_map :: "nat \<rightharpoonup> message_type" where
  "message_type_map =
     [WRITE_ROWS_EVENT_V2 \<mapsto> CreateMessage,
      UPDATE_ROWS_EVENT_V2 \<mapsto> UpdateMessage,
      DELETE_ROWS_EVENT_V2 \<mapsto> DeleteMessage]"

text \<open>
  A row event of the replication library: the attributes the wrapper reads.  The row
  type \<open>'r\<close> is left open (a dictionary of column values in the library).
\<close>

record 'r RowsEvent =
  schema :: string
  table :: string
  event_type :: nat
  rows :: "'r list"
  timestamp :: nat

text \<open>
  A query or GTID event: the wrapper only writes its attributes \<open>log_pos\<close> and
  \<open>log_file\<close> (absent until written, hence optional); everything else the event
  carries is the payload \<open>'m\<close>.
\<close>

record 'm MetaEvent =
  payload :: 'm
  ev_log_pos :: "nat option"
  ev_log_file :: "string option"

text \<open>The classes \<open>isinstance\<close> tells apart; \<open>OtherEvent\<close> is any other class.\<close>

datatype ('m, 'r) event =
    QueryEvent "'m MetaEvent"
  | GtidEvent "'m MetaEvent"
  | WriteRowsEvent "'r RowsEvent"
  | UpdateRowsEvent "'r RowsEvent"
  | DeleteRowsEvent "'r RowsEvent"
  | OtherEvent

text \<open>The named tuple \<open>DataEvent\<close> (fields prefixed, the names being taken above).\<close>

record 'r DataEvent =
  de_schema :: string
  de_table :: string
  de_log_pos :: nat
  de_log_file :: string
  de_row :: 'r
  de_timestamp :: nat
  de_message_type :: message_type

text \<open>
  What \<open>current_events\<close> holds: a query or GTID event handed through, or a
  \<open>DataEvent\<close>.
\<close>

datatype ('m, 'r) buffered = Passthrough "('m, 'r) event" | Data "'r DataEvent"

text \<open>
  The replication stream (\<open>BinLogStreamReader\<close>, an external library): its readable
  position \<open>log_pos\<close>, \<open>log_file\<close>, and what the server will still send.  Each packet
  carries the event \<open>fetchone\<close> returns for it (possibly \<open>None\<close>) and the position the
  reader shows once it is consumed.
\<close>

record ('m, 'r) packet =
  pk_event :: "('m, 'r) event option"
  pk_log_pos :: nat
  pk_log_file :: string

record ('m, 'r) BinLogStreamReader =
  log_pos :: nat
  log_file :: string
  incoming :: "('m, 'r) packet list"

record ('m, 'r) LowLevelBinlogStreamReaderWrapper =
  current_events :: "('m, 'r) buffered list"
  stream :: "('m, 'r) BinLogStreamReader"

text \<open>
  The outcome of a method that changes the wrapper: it returns, or raises (the changes
  made before the exception stay), or never returns because the blocking stream has
  nothing to send.
\<close>

datatype ('a, 's) outcome = Returns 'a 's | Raises error 's | Blocks

section \<open>The table filter\<close>

text \<open>The \<open>for\<close> loop of \<open>_get_only_tables\<close>, with \<open>res_only_table\<close> as accumulator.\<close>

fun only_tables_loop :: "string list \<Rightarrow> string list \<Rightarrow> string list" where
  "only_tables_loop [] res_only_table = res_only_table"
| "only_tables_loop (table_name # only_tables) res_only_table =
     (if endswith table_name refresh_table_suffix
      then only_tables_loop only_tables res_only_table
      else only_tables_loop only_tables
             ((res_only_table @ [table_name]) @ [table_name @ refresh_table_suffix]))"

text \<open>
  \<open>_get_only_tables\<close>; the argument is \<open>config.env_config.table_whitelist\<close>, a list or
  \<open>None\<close>.
\<close>

definition get_only_tables :: "string list option \<Rightarrow> string list option" where
  "get_only_tables table_whitelist =
     (case table_whitelist of
        None \<Rightarrow> None
      | Some only_tables \<Rightarrow>
          if only_tables = [] then None else Some (only_tables_loop only_tables []))"

section \<open>Normalization\<close>

definition get_data_events_from_row_event ::
  "('m, 'r) BinLogStreamReader \<Rightarrow> 'r RowsEvent \<Rightarrow> error + 'r DataEvent list" where
  "get_data_events_from_row_event strm row_event =
     (case message_type_map (event_type row_event) of
        None \<Rightarrow> Inl (KeyError (event_type row_event))
      | Some mapped \<Rightarrow>
          (let (target_table, message_type) =
                 (if endswith (table row_event) refresh_table_suffix
                  then (slice_to_neg (table row_event) (length refresh_table_suffix),
                        RefreshMessage)
                  else (table row_event, mapped))
           in Inr (map (\<lambda>row.
                     \<lparr>de_schema = schema row_event,
                      de_table = target_table,
                      de_log_pos = log_pos strm,
                      de_log_file = log_file strm,
                      de_row = row,
                      de_timestamp = timestamp row_event,
                      de_message_type = message_type\<rparr>) (rows row_event))))"

definition stamp :: "('m, 'r) BinLogStreamReader \<Rightarrow> 'm MetaEvent \<Rightarrow> 'm MetaEvent" where
  \<comment> \<open>The two attribute assignments on a query or GTID event.\<close>
  "stamp strm ev = ev\<lparr>ev_log_pos := Some (log_pos strm), ev_log_file := Some (log_file strm)\<rparr>"

definition data_units :: "error + 'r DataEvent list \<Rightarrow> error + ('m, 'r) buffered list" where
  "data_units r = (case r of Inl e \<Rightarrow> Inl e | Inr evs \<Rightarrow> Inr (map Data evs))"

fun prepare_event ::
  "('m, 'r) BinLogStreamReader \<Rightarrow> ('m, 'r) event option \<Rightarrow> error + ('m, 'r) buffered list" where
  "prepare_event strm None = Inr []"
| "prepare_event strm (Some (QueryEvent ev)) = Inr [Passthrough (QueryEvent (stamp strm ev))]"
| "prepare_event strm (Some (GtidEvent ev)) = Inr [Passthrough (GtidEvent (stamp strm ev))]"
| "prepare_event strm (Some (WriteRowsEvent ev)) = data_units (get_data_events_from_row_event strm ev)"
| "prepare_event strm (Some (UpdateRowsEvent ev)) = data_units (get_data_events_from_row_event strm ev)"
| "prepare_event strm (Some (DeleteRowsEvent ev)) = data_units (get_data_events_from_row_event strm ev)"
| "prepare_event strm (Some OtherEvent) = Inr []"

section \<open>The buffer\<close>

text \<open>
  Modelled from the spec: the pull operation of the raw stream provider (the external
  \<open>BinLogStreamReader.fetchone\<close>).  It returns the next raw event or the absent marker
  and updates the readable log file name and offset for the consumed unit; the stream is
  opened in blocking mode, so with nothing to deliver the call does not return.
\<close>

definition fetchone ::
  "('m, 'r) BinLogStreamReader \<Rightarrow> (('m, 'r) event option \<times> ('m, 'r) BinLogStreamReader) option" where
  \<comment> \<open>One pull; \<open>None\<close> when the call never returns.\<close>
  "fetchone strm =
     (case incoming strm of
        [] \<Rightarrow> None
      | p # ps \<Rightarrow>
          Some (pk_event p,
                strm\<lparr>log_pos := pk_log_pos p, log_file := pk_log_file p, incoming := ps\<rparr>))"

definition refill_current_events ::
  "('m, 'r) LowLevelBinlogStreamReaderWrapper \<Rightarrow>
    (unit, ('m, 'r) LowLevelBinlogStreamReaderWrapper) outcome" where
  "refill_current_events self =
     (if current_events self = [] then
        (case fetchone (stream self) of
           None \<Rightarrow> Blocks
         | Some (ev, strm) \<Rightarrow>
             (let self1 = self\<lparr>stream := strm\<rparr>
              in case prepare_event (stream self1) ev of
                   Inl e \<Rightarrow> Raises e self1
                 | Inr units \<Rightarrow>
                     Returns () (self1\<lparr>current_events := current_events self1 @ units\<rparr>)))
      else Returns () self)"

text \<open>
  Modelled from the spec: \<open>peek\<close> of the base class \<open>BaseBinlogStreamReaderWrapper\<close>
  (\<open>base_binlog_stream_reader_wrapper.py\<close>, not among the sources).  If the buffer is
  empty, exactly one refill cycle is attempted; if it is still empty the result is absent,
  otherwise the first buffered unit is returned without being removed.
\<close>

definition peek ::
  "('m, 'r) LowLevelBinlogStreamReaderWrapper \<Rightarrow>
    (('m, 'r) buffered option, ('m, 'r) LowLevelBinlogStreamReaderWrapper) outcome" where
  "peek self =
     (case (if current_events self = [] then refill_current_events self else Returns () self) of
        Blocks \<Rightarrow> Blocks
      | Raises e self1 \<Rightarrow> Raises e self1
      | Returns _ self1 \<Rightarrow>
          (case current_events self1 of
             [] \<Rightarrow> Returns None self1
           | unit # _ \<Rightarrow> Returns (Some unit) self1))"

text \<open>Shorthands for the closed form of the filter loop, used in the proofs only.\<close>

abbreviation (input) plain :: "string list \<Rightarrow> string list" where
  "plain ws \<equiv> filter (\<lambda>t. \<not> endswith t refresh_table_suffix) ws"

abbreviation (input) paired :: "string list \<Rightarrow> string list" where
  "paired ws \<equiv> concat (map (\<lambda>t. [t, t @ refresh_table_suffix]) ws)"

section \<open>Auxiliary facts\<close>

subsection \<open>Suffixes\<close>

lemma endswith_iff: "endswith s suf \<longleftrightarrow> (\<exists>p. s = p @ suf)"
proof
  assume "endswith s suf"
  then have "s = take (length s - length suf) s @ suf"
    by (metis append_take_drop_id endswith_def)
  then show "\<exists>p. s = p @ suf" ..
next
  assume "\<exists>p. s = p @ suf"
  then show "endswith s suf" by (auto simp: endswith_def)
qed

lemma suffix_nonempty [simp]: "refresh_table_suffix \<noteq> []"
  by (simp add: refresh_table_suffix_def)

lemma slice_strips_suffix:
  assumes "endswith s refresh_table_suffix"
  shows "slice_to_neg s (length refresh_table_suffix) @ refresh_table_suffix = s"
proof -
  from assms obtain p where "s = p @ refresh_table_suffix" by (auto simp: endswith_iff)
  then show ?thesis by (simp add: slice_to_neg_def)
qed

lemma endswith_twice:
  "endswith (p @ refresh_table_suffix) (refresh_table_suffix @ refresh_table_suffix)
     \<longleftrightarrow> endswith p refresh_table_suffix"
  by (auto simp: endswith_iff)

subsection \<open>The loop of the table filter in closed form\<close>

lemma only_tables_loop_eq: "only_tables_loop ws res = res @ paired (plain ws)"
  by (induction ws arbitrary: res) simp_all

lemma length_paired: "length (paired ws) = 2 * length ws"
  by (induction ws) simp_all

lemma set_paired: "set (paired ws) = set ws \<union> (\<lambda>t. t @ refresh_table_suffix) ` set ws"
  by (induction ws) auto

lemma distinct_paired:
  "\<forall>t\<in>set ws. \<not> endswith t refresh_table_suffix \<Longrightarrow> distinct (paired ws) \<longleftrightarrow> distinct ws"
proof (induction ws)
  case Nil
  show ?case by simp
next
  case (Cons x xs)
  have step: "paired (x # xs) = x # (x @ refresh_table_suffix) # paired xs"
    by simp
  have nx: "\<not> endswith x refresh_table_suffix" using Cons.prems by simp
  have nxs: "\<forall>t\<in>set xs. \<not> endswith t refresh_table_suffix" using Cons.prems by simp
  have a: "x \<notin> (\<lambda>t. t @ refresh_table_suffix) ` set xs"
    using nx by (auto simp: endswith_iff)
  have b: "x @ refresh_table_suffix \<notin> set xs"
    using nxs by (auto simp: endswith_iff)
  have c: "x @ refresh_table_suffix \<in> (\<lambda>t. t @ refresh_table_suffix) ` set xs \<longleftrightarrow> x \<in> set xs"
    by auto
  have d: "distinct (x # y # ys) \<longleftrightarrow> x \<noteq> y \<and> x \<notin> set ys \<and> y \<notin> set ys \<and> distinct ys"
    for y :: string and ys
    by auto
  have "distinct (paired (x # xs)) \<longleftrightarrow>
          x \<notin> set (paired xs) \<and> x @ refresh_table_suffix \<notin> set (paired xs)
          \<and> distinct (paired xs)"
    unfolding step d by simp
  also have "\<dots> \<longleftrightarrow> x \<notin> set xs \<and> distinct (paired xs)"
    unfolding set_paired using a b c by blast
  finally show ?case using Cons.IH [OF nxs] by simp
qed

lemma card_paired:
  assumes "\<forall>t\<in>set ws. \<not> endswith t refresh_table_suffix"
  shows "card (set (paired ws)) = 2 * card (set ws)"
proof -
  let ?f = "\<lambda>t. t @ refresh_table_suffix"
  have disj: "set ws \<inter> ?f ` set ws = {}"
    using assms by (auto simp: endswith_iff)
  have inj: "inj_on ?f (set ws)" by (simp add: inj_on_def)
  have "card (set ws \<union> ?f ` set ws) = card (set ws) + card (?f ` set ws)"
    using disj by (simp add: card_Un_disjoint)
  also have "\<dots> = 2 * card (set ws)" using inj by (simp add: card_image)
  finally show ?thesis by (simp only: set_paired)
qed

lemma plain_id: "\<forall>t\<in>set ws. \<not> endswith t refresh_table_suffix \<Longrightarrow> plain ws = ws"
  by simp

lemma plain_none: "\<forall>t\<in>set ws. endswith t refresh_table_suffix \<Longrightarrow> plain ws = []"
  by simp

subsection \<open>Normalization of a row event\<close>

lemma dom_message_type_map:
  "dom message_type_map = {WRITE_ROWS_EVENT_V2, UPDATE_ROWS_EVENT_V2, DELETE_ROWS_EVENT_V2}"
  by (auto simp: message_type_map_def)

lemma message_type_map_kinds:
  assumes "k \<in> {WRITE_ROWS_EVENT_V2, UPDATE_ROWS_EVENT_V2, DELETE_ROWS_EVENT_V2}"
  shows "message_type_map k =
           Some (if k = WRITE_ROWS_EVENT_V2 then CreateMessage
                 else if k = UPDATE_ROWS_EVENT_V2 then UpdateMessage
                 else DeleteMessage)"
  using assms
  by (auto simp: message_type_map_def WRITE_ROWS_EVENT_V2_def UPDATE_ROWS_EVENT_V2_def
      DELETE_ROWS_EVENT_V2_def)

lemma get_data_events_shadow:
  assumes "message_type_map (event_type ev) = Some mapped"
    and "endswith (table ev) refresh_table_suffix"
  shows "get_data_events_from_row_event strm ev =
           Inr (map (\<lambda>row. \<lparr>de_schema = schema ev,
                             de_table = slice_to_neg (table ev) (length refresh_table_suffix),
                             de_log_pos = log_pos strm, de_log_file = log_file strm,
                             de_row = row, de_timestamp = timestamp ev,
                             de_message_type = RefreshMessage\<rparr>) (rows ev))"
  using assms by (simp add: get_data_events_from_row_event_def)

lemma get_data_events_plain:
  assumes "message_type_map (event_type ev) = Some mapped"
    and "\<not> endswith (table ev) refresh_table_suffix"
  shows "get_data_events_from_row_event strm ev =
           Inr (map (\<lambda>row. \<lparr>de_schema = schema ev, de_table = table ev,
                             de_log_pos = log_pos strm, de_log_file = log_file strm,
                             de_row = row, de_timestamp = timestamp ev,
                             de_message_type = mapped\<rparr>) (rows ev))"
  using assms by (simp add: get_data_events_from_row_event_def)

lemma get_data_events_unmapped:
  "message_type_map (event_type ev) = None \<Longrightarrow>
     get_data_events_from_row_event strm ev = Inl (KeyError (event_type ev))"
  by (simp add: get_data_events_from_row_event_def)

lemma prepare_event_rows:
  "raw \<in> {WriteRowsEvent ev, UpdateRowsEvent ev, DeleteRowsEvent ev} \<Longrightarrow>
     prepare_event strm (Some raw) = data_units (get_data_events_from_row_event strm ev)"
  by auto

lemma fetchone_Cons:
  "incoming strm = p # ps \<Longrightarrow>
     fetchone strm =
       Some (pk_event p, strm\<lparr>log_pos := pk_log_pos p, log_file := pk_log_file p, incoming := ps\<rparr>)"
  by (simp add: fetchone_def)

lemmas eval_defs =
  get_data_events_from_row_event_def message_type_map_def data_units_def stamp_def
  WRITE_ROWS_EVENT_V2_def UPDATE_ROWS_EVENT_V2_def DELETE_ROWS_EVENT_V2_def WRITE_ROWS_EVENT_V1_def
  endswith_def slice_to_neg_def refresh_table_suffix_def
  fetchone_def refill_current_events_def peek_def get_only_tables_def

section \<open>The table filter: claims C6, C7, C8\<close>

text \<open>
  C6.  For a non-empty whitelist \<open>W\<close> none of whose entries ends with the shadow suffix,
  the computed filter has exactly \<open>2 * |W|\<close> entries (as a list, and also as a set of
  distinct names against the distinct names of \<open>W\<close>) and contains every \<open>t\<close> of \<open>W\<close>
  together with \<open>t\<close> followed by the suffix.
\<close>

theorem filter_expansion:
  assumes "W \<noteq> []" and "\<forall>t\<in>set W. \<not> endswith t refresh_table_suffix"
  shows "\<exists>res. get_only_tables (Some W) = Some res \<and> length res = 2 * length W
           \<and> card (set res) = 2 * card (set W)
           \<and> (\<forall>t\<in>set W. t \<in> set res \<and> t @ refresh_table_suffix \<in> set res)"
proof -
  have res: "get_only_tables (Some W) = Some (paired W)"
    using assms by (simp add: get_only_tables_def only_tables_loop_eq)
  have len: "length (paired W) = 2 * length W" by (rule length_paired)
  have crd: "card (set (paired W)) = 2 * card (set W)" using assms(2) by (rule card_paired)
  have mem: "\<forall>t\<in>set W. t \<in> set (paired W) \<and> t @ refresh_table_suffix \<in> set (paired W)"
    unfolding set_paired by simp
  from res len crd mem show ?thesis by blast
qed

theorem filter_expansion_witness:
  "get_only_tables (Some [''orders'', ''users'']) =
     Some [''orders'', ''orders_data_pipeline_refresh'', ''users'', ''users_data_pipeline_refresh'']"
proof -
  have h1: "[''orders'', ''users''] \<noteq> []" by simp
  have h2: "\<forall>t\<in>set [''orders'', ''users'']. \<not> endswith t refresh_table_suffix"
    by (simp add: endswith_def refresh_table_suffix_def)
  from filter_expansion [OF h1 h2] show ?thesis
    by (simp add: get_only_tables_def endswith_def refresh_table_suffix_def)
qed

text \<open>
  C7, as stated, fails: the filter is a list built by appending, and a table name that is
  repeated in the whitelist is expanded once per occurrence.
\<close>

theorem filter_duplicates_counterexample:
  "get_only_tables (Some [''orders'', ''orders'']) =
     Some [''orders'', ''orders_data_pipeline_refresh'', ''orders'', ''orders_data_pipeline_refresh'']
   \<and> \<not> distinct (the (get_only_tables (Some [''orders'', ''orders''])))"
  by (simp add: get_only_tables_def endswith_def refresh_table_suffix_def)

text \<open>
  C7, amended.  The computed filter is free of duplicates exactly when no table name
  without the shadow suffix is repeated in the whitelist; in particular it is for every
  whitelist without repeated names.
\<close>

theorem filter_distinct:
  assumes "get_only_tables (Some W) = Some res"
  shows "distinct res \<longleftrightarrow> distinct (filter (\<lambda>t. \<not> endswith t refresh_table_suffix) W)"
proof -
  from assms have ne: "W \<noteq> []"
    by (auto simp: get_only_tables_def)
  have res: "res = paired (plain W)"
    using assms ne by (simp add: get_only_tables_def only_tables_loop_eq)
  have "\<forall>t\<in>set (plain W). \<not> endswith t refresh_table_suffix"
    by simp
  then have "distinct (paired (plain W)) \<longleftrightarrow> distinct (plain W)"
    by (rule distinct_paired)
  then show ?thesis unfolding res .
qed

theorem filter_distinct_witness:
  "get_only_tables (Some [''orders'', ''users'', ''orders_data_pipeline_refresh'']) =
     Some [''orders'', ''orders_data_pipeline_refresh'', ''users'', ''users_data_pipeline_refresh'']
   \<and> distinct [''orders'', ''orders_data_pipeline_refresh'', ''users'', ''users_data_pipeline_refresh'']"
proof -
  have r: "get_only_tables (Some [''orders'', ''users'', ''orders_data_pipeline_refresh'']) =
     Some [''orders'', ''orders_data_pipeline_refresh'', ''users'', ''users_data_pipeline_refresh'']"
    by (simp add: get_only_tables_def endswith_def refresh_table_suffix_def)
  from filter_distinct [OF r] show ?thesis
    by (simp add: r endswith_def refresh_table_suffix_def)
qed

text \<open>
  C8.  The filter computation returns the absent value exactly when the whitelist is unset
  or empty; a non-empty whitelist all of whose entries end with the shadow suffix yields
  the empty collection, not the absent value.  (The computation is total: there is no
  error result.)
\<close>

theorem filter_absent_iff:
  "(get_only_tables whitelist = None \<longleftrightarrow> whitelist = None \<or> whitelist = Some [])
   \<and> (W \<noteq> [] \<and> (\<forall>t\<in>set W. endswith t refresh_table_suffix)
        \<longrightarrow> get_only_tables (Some W) = Some [])"
  by (auto simp: get_only_tables_def only_tables_loop_eq split: option.splits)

theorem filter_absent_iff_witness:
  "get_only_tables (Some [''orders_data_pipeline_refresh'']) = Some []
   \<and> get_only_tables (Some []) = None \<and> get_only_tables None = None"
  using filter_absent_iff [of "Some []" "[''orders_data_pipeline_refresh'']"]
        filter_absent_iff [of None "[''orders_data_pipeline_refresh'']"]
  by (simp add: endswith_def refresh_table_suffix_def)

section \<open>Normalization: claims C1, C2, C3, C4, C9\<close>

text \<open>
  In the theorems below a row-mutation raw event is an instance \<open>raw\<close> of one of the three
  row event classes, with attributes \<open>ev\<close>; its mutation kind is \<open>event_type ev\<close>, and
  insert, update and delete are the three keys of \<open>message_type_map\<close>.
\<close>

text \<open>
  C1.  For a row-mutation raw event whose table name ends with the shadow suffix,
  whether its kind is insert, update or delete, normalization emits one \<open>DataEvent\<close> per
  row, each with the raw table name less the suffix as table and \<open>RefreshMessage\<close> as
  message type.
\<close>

theorem shadow_remap:
  assumes "raw \<in> {WriteRowsEvent ev, UpdateRowsEvent ev, DeleteRowsEvent ev}"
    and "event_type ev \<in> {WRITE_ROWS_EVENT_V2, UPDATE_ROWS_EVENT_V2, DELETE_ROWS_EVENT_V2}"
    and "endswith (table ev) refresh_table_suffix"
  shows "\<exists>evs. prepare_event strm (Some raw) = Inr (map Data evs)
           \<and> length evs = length (rows ev)
           \<and> (\<forall>e\<in>set evs. de_table e @ refresh_table_suffix = table ev
                            \<and> de_message_type e = RefreshMessage)"
proof -
  note m = message_type_map_kinds [OF assms(2)]
  let ?evs = "map (\<lambda>row. \<lparr>de_schema = schema ev,
                             de_table = slice_to_neg (table ev) (length refresh_table_suffix),
                             de_log_pos = log_pos strm, de_log_file = log_file strm,
                             de_row = row, de_timestamp = timestamp ev,
                             de_message_type = RefreshMessage\<rparr>) (rows ev)"
  have "prepare_event strm (Some raw) = Inr (map Data ?evs)"
    by (simp only: prepare_event_rows [OF assms(1)] get_data_events_shadow [OF m assms(3)])
       (simp add: data_units_def)
  moreover have "length ?evs = length (rows ev)" by simp
  moreover have "\<forall>e\<in>set ?evs. de_table e @ refresh_table_suffix = table ev
                            \<and> de_message_type e = RefreshMessage"
    using assms(3) by (auto simp: slice_strips_suffix)
  ultimately show ?thesis by blast
qed

theorem shadow_remap_witness:
  "prepare_event
     (\<lparr>log_pos = 107, log_file = ''mysql-bin.000003'', incoming = []\<rparr>
        :: (string, nat) BinLogStreamReader)
     (Some (DeleteRowsEvent
        \<lparr>schema = ''shop'', table = ''orders_data_pipeline_refresh'',
         event_type = DELETE_ROWS_EVENT_V2, rows = [7], timestamp = 1460000000\<rparr>))
   = Inr [Data \<lparr>de_schema = ''shop'', de_table = ''orders'', de_log_pos = 107,
                de_log_file = ''mysql-bin.000003'', de_row = 7, de_timestamp = 1460000000,
                de_message_type = RefreshMessage\<rparr>]"
proof -
  let ?ev = "\<lparr>schema = ''shop'', table = ''orders_data_pipeline_refresh'',
         event_type = DELETE_ROWS_EVENT_V2, rows = [7::nat], timestamp = 1460000000\<rparr>"
  let ?strm = "\<lparr>log_pos = 107, log_file = ''mysql-bin.000003'', incoming = []\<rparr>
        :: (string, nat) BinLogStreamReader"
  have h1: "DeleteRowsEvent ?ev \<in> {WriteRowsEvent ?ev, UpdateRowsEvent ?ev, DeleteRowsEvent ?ev}"
    by simp
  have h2: "event_type ?ev \<in> {WRITE_ROWS_EVENT_V2, UPDATE_ROWS_EVENT_V2, DELETE_ROWS_EVENT_V2}"
    by simp
  have h3: "endswith (table ?ev) refresh_table_suffix"
    by (simp add: endswith_def refresh_table_suffix_def)
  from shadow_remap [OF h1 h2 h3, of ?strm] show ?thesis
    by (simp add: eval_defs)
qed

text \<open>
  C2.  For a row-mutation raw event of kind insert, update or delete with rows
  \<open>r1 .. rn\<close>, normalization returns exactly \<open>n\<close> \<open>DataEvent\<close>s, the \<open>i\<close>-th carrying the
  \<open>i\<close>-th row, the raw event's schema and timestamp and the stream's current log position
  and file; unless the table name ends with the shadow suffix, it also carries the raw
  table name and the message type that insert, update or delete maps to.
\<close>

theorem row_expansion:
  assumes "raw \<in> {WriteRowsEvent ev, UpdateRowsEvent ev, DeleteRowsEvent ev}"
    and "event_type ev \<in> {WRITE_ROWS_EVENT_V2, UPDATE_ROWS_EVENT_V2, DELETE_ROWS_EVENT_V2}"
  shows "\<exists>evs. prepare_event strm (Some raw) = Inr (map Data evs)
           \<and> length evs = length (rows ev)
           \<and> (\<forall>i<length (rows ev).
                de_row (evs ! i) = rows ev ! i
                \<and> de_schema (evs ! i) = schema ev
                \<and> de_timestamp (evs ! i) = timestamp ev
                \<and> de_log_pos (evs ! i) = log_pos strm
                \<and> de_log_file (evs ! i) = log_file strm
                \<and> (\<not> endswith (table ev) refresh_table_suffix \<longrightarrow>
                     de_table (evs ! i) = table ev
                     \<and> de_message_type (evs ! i) =
                         (if event_type ev = WRITE_ROWS_EVENT_V2 then CreateMessage
                          else if event_type ev = UPDATE_ROWS_EVENT_V2 then UpdateMessage
                          else DeleteMessage)))"
proof (cases "endswith (table ev) refresh_table_suffix")
  case True
  note m = message_type_map_kinds [OF assms(2)]
  let ?evs = "map (\<lambda>row. \<lparr>de_schema = schema ev,
                             de_table = slice_to_neg (table ev) (length refresh_table_suffix),
                             de_log_pos = log_pos strm, de_log_file = log_file strm,
                             de_row = row, de_timestamp = timestamp ev,
                             de_message_type = RefreshMessage\<rparr>) (rows ev)"
  have "prepare_event strm (Some raw) = Inr (map Data ?evs)"
    by (simp only: prepare_event_rows [OF assms(1)] get_data_events_shadow [OF m True])
       (simp add: data_units_def)
  moreover have "length ?evs = length (rows ev)" by simp
  moreover have "\<forall>i<length (rows ev).
                de_row (?evs ! i) = rows ev ! i
                \<and> de_schema (?evs ! i) = schema ev
                \<and> de_timestamp (?evs ! i) = timestamp ev
                \<and> de_log_pos (?evs ! i) = log_pos strm
                \<and> de_log_file (?evs ! i) = log_file strm"
    by simp
  ultimately show ?thesis using True by blast
next
  case False
  let ?mapped = "if event_type ev = WRITE_ROWS_EVENT_V2 then CreateMessage
                 else if event_type ev = UPDATE_ROWS_EVENT_V2 then UpdateMessage
                 else DeleteMessage"
  note m = message_type_map_kinds [OF assms(2)]
  let ?evs = "map (\<lambda>row. \<lparr>de_schema = schema ev, de_table = table ev,
                             de_log_pos = log_pos strm, de_log_file = log_file strm,
                             de_row = row, de_timestamp = timestamp ev,
                             de_message_type = ?mapped\<rparr>) (rows ev)"
  have "prepare_event strm (Some raw) = Inr (map Data ?evs)"
    by (simp only: prepare_event_rows [OF assms(1)] get_data_events_plain [OF m False])
       (simp add: data_units_def)
  moreover have "length ?evs = length (rows ev)" by simp
  moreover have "\<forall>i<length (rows ev).
                de_row (?evs ! i) = rows ev ! i
                \<and> de_schema (?evs ! i) = schema ev
                \<and> de_timestamp (?evs ! i) = timestamp ev
                \<and> de_log_pos (?evs ! i) = log_pos strm
                \<and> de_log_file (?evs ! i) = log_file strm
                \<and> de_table (?evs ! i) = table ev
                \<and> de_message_type (?evs ! i) = ?mapped"
    by simp
  ultimately show ?thesis by blast
qed

theorem row_expansion_witness:
  "prepare_event
     (\<lparr>log_pos = 107, log_file = ''mysql-bin.000003'', incoming = []\<rparr>
        :: (string, nat) BinLogStreamReader)
     (Some (UpdateRowsEvent
        \<lparr>schema = ''shop'', table = ''orders'',
         event_type = UPDATE_ROWS_EVENT_V2, rows = [1, 2, 3], timestamp = 1460000000\<rparr>))
   = Inr [Data \<lparr>de_schema = ''shop'', de_table = ''orders'', de_log_pos = 107,
                de_log_file = ''mysql-bin.000003'', de_row = 1, de_timestamp = 1460000000,
                de_message_type = UpdateMessage\<rparr>,
          Data \<lparr>de_schema = ''shop'', de_table = ''orders'', de_log_pos = 107,
                de_log_file = ''mysql-bin.000003'', de_row = 2, de_timestamp = 1460000000,
                de_message_type = UpdateMessage\<rparr>,
          Data \<lparr>de_schema = ''shop'', de_table = ''orders'', de_log_pos = 107,
                de_log_file = ''mysql-bin.000003'', de_row = 3, de_timestamp = 1460000000,
                de_message_type = UpdateMessage\<rparr>]"
proof -
  let ?ev = "\<lparr>schema = ''shop'', table = ''orders'',
         event_type = UPDATE_ROWS_EVENT_V2, rows = [1, 2, 3::nat], timestamp = 1460000000\<rparr>"
  let ?strm = "\<lparr>log_pos = 107, log_file = ''mysql-bin.000003'', incoming = []\<rparr>
        :: (string, nat) BinLogStreamReader"
  have h1: "UpdateRowsEvent ?ev \<in> {WriteRowsEvent ?ev, UpdateRowsEvent ?ev, DeleteRowsEvent ?ev}"
    by simp
  have h2: "event_type ?ev \<in> {WRITE_ROWS_EVENT_V2, UPDATE_ROWS_EVENT_V2, DELETE_ROWS_EVENT_V2}"
    by simp
  from row_expansion [OF h1 h2, of ?strm] show ?thesis
    by (simp add: eval_defs)
qed

text \<open>
  C3, as stated, fails: exactly one copy of the suffix is removed, so a table whose name
  ends with the suffix twice is reported under a name that still ends with it.
\<close>

theorem output_table_suffix_counterexample:
  "prepare_event
     (\<lparr>log_pos = 107, log_file = ''mysql-bin.000003'', incoming = []\<rparr>
        :: (string, nat) BinLogStreamReader)
     (Some (WriteRowsEvent
        \<lparr>schema = ''shop'', table = ''orders_data_pipeline_refresh_data_pipeline_refresh'',
         event_type = WRITE_ROWS_EVENT_V2, rows = [7], timestamp = 1460000000\<rparr>))
   = Inr [Data \<lparr>de_schema = ''shop'', de_table = ''orders_data_pipeline_refresh'',
                de_log_pos = 107, de_log_file = ''mysql-bin.000003'', de_row = 7,
                de_timestamp = 1460000000, de_message_type = RefreshMessage\<rparr>]
   \<and> endswith ''orders_data_pipeline_refresh'' refresh_table_suffix"
  by (simp add: eval_defs)

text \<open>
  C3, amended.  The table of a \<open>DataEvent\<close> produced from a row-mutation raw event ends
  with the shadow suffix exactly when the raw table name ends with two consecutive copies
  of it; for every other raw table name the output table does not end with the suffix.
\<close>

theorem output_table_suffix:
  assumes "raw \<in> {WriteRowsEvent ev, UpdateRowsEvent ev, DeleteRowsEvent ev}"
    and "prepare_event strm (Some raw) = Inr units"
    and "Data e \<in> set units"
  shows "endswith (de_table e) refresh_table_suffix \<longleftrightarrow>
           endswith (table ev) (refresh_table_suffix @ refresh_table_suffix)"
proof -
  have r: "data_units (get_data_events_from_row_event strm ev) = Inr units"
    using assms(2) by (simp only: prepare_event_rows [OF assms(1)])
  then obtain mapped where m: "message_type_map (event_type ev) = Some mapped"
    by (cases "message_type_map (event_type ev)")
       (auto simp: get_data_events_unmapped data_units_def)
  show ?thesis
  proof (cases "endswith (table ev) refresh_table_suffix")
    case True
    then obtain p where p: "table ev = p @ refresh_table_suffix" by (auto simp: endswith_iff)
    have "de_table e = slice_to_neg (table ev) (length refresh_table_suffix)"
      using r assms(3) by (auto simp: get_data_events_shadow [OF m True] data_units_def)
    then have "de_table e = p" by (simp add: p slice_to_neg_def)
    then show ?thesis by (simp add: p endswith_twice)
  next
    case False
    have "\<not> endswith (table ev) (refresh_table_suffix @ refresh_table_suffix)"
      using False by (auto simp: endswith_iff)
    moreover have "de_table e = table ev"
      using r assms(3) by (auto simp: get_data_events_plain [OF m False] data_units_def)
    ultimately show ?thesis using False by simp
  qed
qed

theorem output_table_suffix_witness:
  "\<not> endswith ''orders_data_pipeline_refresh'' (refresh_table_suffix @ refresh_table_suffix)
   \<and> prepare_event
     (\<lparr>log_pos = 107, log_file = ''mysql-bin.000003'', incoming = []\<rparr>
        :: (string, nat) BinLogStreamReader)
     (Some (WriteRowsEvent
        \<lparr>schema = ''shop'', table = ''orders_data_pipeline_refresh'',
         event_type = WRITE_ROWS_EVENT_V2, rows = [7], timestamp = 1460000000\<rparr>))
   = Inr [Data \<lparr>de_schema = ''shop'', de_table = ''orders'',
                de_log_pos = 107, de_log_file = ''mysql-bin.000003'', de_row = 7,
                de_timestamp = 1460000000, de_message_type = RefreshMessage\<rparr>]
   \<and> \<not> endswith ''orders'' refresh_table_suffix"
proof -
  let ?ev = "\<lparr>schema = ''shop'', table = ''orders_data_pipeline_refresh'',
         event_type = WRITE_ROWS_EVENT_V2, rows = [7::nat], timestamp = 1460000000\<rparr>"
  let ?strm = "\<lparr>log_pos = 107, log_file = ''mysql-bin.000003'', incoming = []\<rparr>
        :: (string, nat) BinLogStreamReader"
  let ?e = "\<lparr>de_schema = ''shop'', de_table = ''orders'',
                de_log_pos = 107, de_log_file = ''mysql-bin.000003'', de_row = 7::nat,
                de_timestamp = 1460000000, de_message_type = RefreshMessage\<rparr>"
  have h1: "WriteRowsEvent ?ev \<in> {WriteRowsEvent ?ev, UpdateRowsEvent ?ev, DeleteRowsEvent ?ev}"
    by simp
  have h2: "prepare_event ?strm (Some (WriteRowsEvent ?ev)) = Inr [Data ?e]"
    by (simp add: eval_defs)
  have h3: "Data ?e \<in> set [Data ?e :: (string, nat) buffered]" by simp
  have n: "\<not> endswith ''orders_data_pipeline_refresh'' (refresh_table_suffix @ refresh_table_suffix)"
    by (simp add: endswith_def refresh_table_suffix_def)
  from output_table_suffix [OF h1 h2 h3] n h2 show ?thesis
    by simp
qed

text \<open>
  C4.  For a row-mutation raw event whose kind has no entry in \<open>message_type_map\<close>,
  normalization raises \<open>KeyError\<close> instead of returning a sequence, whatever the table
  name is, a name ending with the shadow suffix included: the lookup comes before the
  suffix test.
\<close>

theorem unmapped_kind_raises:
  assumes "raw \<in> {WriteRowsEvent ev, UpdateRowsEvent ev, DeleteRowsEvent ev}"
    and "event_type ev \<notin> dom message_type_map"
  shows "prepare_event strm (Some raw) = Inl (KeyError (event_type ev))"
proof -
  from assms(2) have "message_type_map (event_type ev) = None" by auto
  then show ?thesis
    by (simp add: prepare_event_rows [OF assms(1)] get_data_events_unmapped data_units_def)
qed

theorem unmapped_kind_raises_witness:
  "prepare_event
     (\<lparr>log_pos = 107, log_file = ''mysql-bin.000003'', incoming = []\<rparr>
        :: (string, nat) BinLogStreamReader)
     (Some (WriteRowsEvent
        \<lparr>schema = ''shop'', table = ''orders_data_pipeline_refresh'',
         event_type = WRITE_ROWS_EVENT_V1, rows = [7], timestamp = 1460000000\<rparr>))
   = Inl (KeyError 23)"
proof -
  let ?ev = "\<lparr>schema = ''shop'', table = ''orders_data_pipeline_refresh'',
         event_type = WRITE_ROWS_EVENT_V1, rows = [7::nat], timestamp = 1460000000\<rparr>"
  let ?strm = "\<lparr>log_pos = 107, log_file = ''mysql-bin.000003'', incoming = []\<rparr>
        :: (string, nat) BinLogStreamReader"
  have h1: "WriteRowsEvent ?ev \<in> {WriteRowsEvent ?ev, UpdateRowsEvent ?ev, DeleteRowsEvent ?ev}"
    by simp
  have h2: "event_type ?ev \<notin> dom message_type_map"
    by (simp add: dom_message_type_map WRITE_ROWS_EVENT_V1_def WRITE_ROWS_EVENT_V2_def
        UPDATE_ROWS_EVENT_V2_def DELETE_ROWS_EVENT_V2_def)
  from unmapped_kind_raises [OF h1 h2, of ?strm] show ?thesis
    by (simp add: WRITE_ROWS_EVENT_V1_def)
qed

text \<open>
  C9.  A query event and a GTID event are each normalized to a one-element sequence
  holding that event, with \<open>log_pos\<close> and \<open>log_file\<close> set to the stream's current values
  (whatever the event held there before) and everything else unchanged.
\<close>

theorem metadata_passthrough:
  "(\<exists>ev'. prepare_event strm (Some (QueryEvent ev)) = Inr [Passthrough (QueryEvent ev')]
          \<and> ev_log_pos ev' = Some (log_pos strm) \<and> ev_log_file ev' = Some (log_file strm)
          \<and> payload ev' = payload ev)
   \<and> (\<exists>ev'. prepare_event strm (Some (GtidEvent ev)) = Inr [Passthrough (GtidEvent ev')]
          \<and> ev_log_pos ev' = Some (log_pos strm) \<and> ev_log_file ev' = Some (log_file strm)
          \<and> payload ev' = payload ev)"
  by (simp add: stamp_def)

theorem metadata_passthrough_witness:
  "prepare_event
     (\<lparr>log_pos = 107, log_file = ''mysql-bin.000003'', incoming = []\<rparr>
        :: (string, nat) BinLogStreamReader)
     (Some (QueryEvent \<lparr>payload = ''ALTER TABLE orders ADD note TEXT'',
                         ev_log_pos = Some 4, ev_log_file = None\<rparr>))
   = Inr [Passthrough (QueryEvent \<lparr>payload = ''ALTER TABLE orders ADD note TEXT'',
                                     ev_log_pos = Some 107,
                                     ev_log_file = Some ''mysql-bin.000003''\<rparr>)]"
  using metadata_passthrough
     [of "\<lparr>log_pos = 107, log_file = ''mysql-bin.000003'', incoming = []\<rparr>
            :: (string, nat) BinLogStreamReader"
         "\<lparr>payload = ''ALTER TABLE orders ADD note TEXT'',
           ev_log_pos = Some 4, ev_log_file = None\<rparr>"]
  by (simp add: stamp_def)

section \<open>The buffer: claims C5, C10\<close>

text \<open>
  C5.  With a unit in the buffer, refill returns with the wrapper unchanged: buffer and
  stream are as before, so nothing was pulled.  With an empty buffer and a packet \<open>p\<close> to
  pull, refill consumes exactly that packet: the stream shows the position of \<open>p\<close> and
  the packets after \<open>p\<close>, and the units that normalization (at that position) makes of
  the event of \<open>p\<close> are appended to the buffer in order, none when there are none; when
  normalization raises, the exception leaves the buffer as it was.  With an empty buffer
  and nothing to pull, refill waits.
\<close>

theorem refill_only_when_empty:
  "(current_events self \<noteq> [] \<longrightarrow> refill_current_events self = Returns () self)
   \<and> (current_events self = [] \<and> incoming (stream self) = p # ps \<longrightarrow>
        (\<exists>strm. log_pos strm = pk_log_pos p \<and> log_file strm = pk_log_file p \<and> incoming strm = ps
           \<and> (\<forall>units. prepare_event strm (pk_event p) = Inr units \<longrightarrow>
                 (\<exists>self1. refill_current_events self = Returns () self1
                    \<and> current_events self1 = current_events self @ units
                    \<and> stream self1 = strm))
           \<and> (\<forall>e. prepare_event strm (pk_event p) = Inl e \<longrightarrow>
                 (\<exists>self1. refill_current_events self = Raises e self1
                    \<and> current_events self1 = current_events self
                    \<and> stream self1 = strm))))
   \<and> (current_events self = [] \<and> incoming (stream self) = [] \<longrightarrow>
        refill_current_events self = Blocks)"
proof (intro conjI impI)
  assume "current_events self \<noteq> []"
  then show "refill_current_events self = Returns () self"
    by (simp add: refill_current_events_def)
next
  assume "current_events self = [] \<and> incoming (stream self) = []"
  then show "refill_current_events self = Blocks"
    by (simp add: refill_current_events_def fetchone_def)
next
  assume a: "current_events self = [] \<and> incoming (stream self) = p # ps"
  let ?strm = "(stream self)\<lparr>log_pos := pk_log_pos p, log_file := pk_log_file p, incoming := ps\<rparr>"
  have f: "fetchone (stream self) = Some (pk_event p, ?strm)"
    using a by (simp add: fetchone_Cons)
  have ok: "\<forall>units. prepare_event ?strm (pk_event p) = Inr units \<longrightarrow>
                 (\<exists>self1. refill_current_events self = Returns () self1
                    \<and> current_events self1 = current_events self @ units
                    \<and> stream self1 = ?strm)"
    using a f by (simp add: refill_current_events_def)
  have bad: "\<forall>e. prepare_event ?strm (pk_event p) = Inl e \<longrightarrow>
                 (\<exists>self1. refill_current_events self = Raises e self1
                    \<and> current_events self1 = current_events self
                    \<and> stream self1 = ?strm)"
    using a f by (simp add: refill_current_events_def)
  have "log_pos ?strm = pk_log_pos p \<and> log_file ?strm = pk_log_file p \<and> incoming ?strm = ps"
    by simp
  with ok bad
  show "\<exists>strm. log_pos strm = pk_log_pos p \<and> log_file strm = pk_log_file p \<and> incoming strm = ps
           \<and> (\<forall>units. prepare_event strm (pk_event p) = Inr units \<longrightarrow>
                 (\<exists>self1. refill_current_events self = Returns () self1
                    \<and> current_events self1 = current_events self @ units
                    \<and> stream self1 = strm))
           \<and> (\<forall>e. prepare_event strm (pk_event p) = Inl e \<longrightarrow>
                 (\<exists>self1. refill_current_events self = Raises e self1
                    \<and> current_events self1 = current_events self
                    \<and> stream self1 = strm))"
    by blast
qed

theorem refill_only_when_empty_witness:
  "refill_current_events
     \<lparr>current_events = [],
      stream = \<lparr>log_pos = 4, log_file = ''mysql-bin.000003'',
                incoming = [\<lparr>pk_event = Some (QueryEvent \<lparr>payload = ''BEGIN'', ev_log_pos = None,
                                                          ev_log_file = None\<rparr>),
                             pk_log_pos = 107, pk_log_file = ''mysql-bin.000003''\<rparr>]\<rparr>\<rparr>
   = Returns ()
       \<lparr>current_events =
          [Passthrough (QueryEvent \<lparr>payload = ''BEGIN'', ev_log_pos = Some 107,
                                    ev_log_file = Some ''mysql-bin.000003''\<rparr>)
           :: (string, nat) buffered],
        stream = \<lparr>log_pos = 107, log_file = ''mysql-bin.000003'', incoming = []\<rparr>\<rparr>
   \<and> refill_current_events
       \<lparr>current_events = [Passthrough OtherEvent :: (string, nat) buffered],
        stream = \<lparr>log_pos = 4, log_file = ''mysql-bin.000003'',
                  incoming = [\<lparr>pk_event = None, pk_log_pos = 107,
                               pk_log_file = ''mysql-bin.000003''\<rparr>]\<rparr>\<rparr>
     = Returns ()
       \<lparr>current_events = [Passthrough OtherEvent],
        stream = \<lparr>log_pos = 4, log_file = ''mysql-bin.000003'',
                  incoming = [\<lparr>pk_event = None, pk_log_pos = 107,
                               pk_log_file = ''mysql-bin.000003''\<rparr>]\<rparr>\<rparr>"
proof -
  let ?p = "\<lparr>pk_event = Some (QueryEvent \<lparr>payload = ''BEGIN'', ev_log_pos = None,
                                               ev_log_file = None\<rparr>),
             pk_log_pos = 107, pk_log_file = ''mysql-bin.000003''\<rparr> :: (string, nat) packet"
  let ?a = "\<lparr>current_events = [],
      stream = \<lparr>log_pos = 4, log_file = ''mysql-bin.000003'', incoming = [?p]\<rparr>\<rparr>"
  let ?b = "\<lparr>current_events = [Passthrough OtherEvent :: (string, nat) buffered],
        stream = \<lparr>log_pos = 4, log_file = ''mysql-bin.000003'',
                  incoming = [\<lparr>pk_event = None, pk_log_pos = 107,
                               pk_log_file = ''mysql-bin.000003''\<rparr>]\<rparr>\<rparr>"
  from refill_only_when_empty [of ?a ?p "[]"] refill_only_when_empty [of ?b ?p "[]"]
  show ?thesis
    by (simp add: eval_defs)
qed

text \<open>
  C10, as stated, fails: the lookup in \<open>message_type_map\<close> comes before the rows are read,
  so a row event whose kind has no entry there raises \<open>KeyError\<close> even when it has no
  rows; normalization does not return the empty sequence, and the refill and the \<open>peek\<close>
  that pull the event raise too.
\<close>

theorem empty_rows_unmapped_counterexample:
  "prepare_event
     (\<lparr>log_pos = 107, log_file = ''mysql-bin.000003'', incoming = []\<rparr>
        :: (string, nat) BinLogStreamReader)
     (Some (WriteRowsEvent
        \<lparr>schema = ''shop'', table = ''orders'',
         event_type = WRITE_ROWS_EVENT_V1, rows = [], timestamp = 1460000000\<rparr>))
   = Inl (KeyError 23)
   \<and> refill_current_events
       \<lparr>current_events = [],
        stream = \<lparr>log_pos = 4, log_file = ''mysql-bin.000003'',
                  incoming = [\<lparr>pk_event = Some (WriteRowsEvent
                                  \<lparr>schema = ''shop'', table = ''orders'',
                                   event_type = WRITE_ROWS_EVENT_V1, rows = [],
                                   timestamp = 1460000000\<rparr>),
                               pk_log_pos = 107, pk_log_file = ''mysql-bin.000003''\<rparr>]\<rparr>\<rparr>
     = Raises (KeyError 23)
         \<lparr>current_events = ([] :: (string, nat) buffered list),
          stream = \<lparr>log_pos = 107, log_file = ''mysql-bin.000003'', incoming = []\<rparr>\<rparr>
   \<and> peek
       \<lparr>current_events = [],
        stream = \<lparr>log_pos = 4, log_file = ''mysql-bin.000003'',
                  incoming = [\<lparr>pk_event = Some (WriteRowsEvent
                                  \<lparr>schema = ''shop'', table = ''orders'',
                                   event_type = WRITE_ROWS_EVENT_V1, rows = [],
                                   timestamp = 1460000000\<rparr>),
                               pk_log_pos = 107, pk_log_file = ''mysql-bin.000003''\<rparr>]\<rparr>\<rparr>
     = Raises (KeyError 23)
         \<lparr>current_events = ([] :: (string, nat) buffered list),
          stream = \<lparr>log_pos = 107, log_file = ''mysql-bin.000003'', incoming = []\<rparr>\<rparr>"
  by (simp add: eval_defs)

text \<open>
  C10, amended.  For a row-mutation raw event of kind insert, update or delete (a kind
  with an entry in \<open>message_type_map\<close>) whose rows are empty, normalization returns the
  empty sequence; a refill that pulls such an event into an empty buffer consumes it and
  leaves the buffer empty, and \<open>peek\<close> then returns absent although the stream did yield
  an event.
\<close>

theorem empty_rows_yield_nothing:
  assumes "raw \<in> {WriteRowsEvent ev, UpdateRowsEvent ev, DeleteRowsEvent ev}"
    and "event_type ev \<in> {WRITE_ROWS_EVENT_V2, UPDATE_ROWS_EVENT_V2, DELETE_ROWS_EVENT_V2}"
    and "rows ev = []"
    and "current_events self = []"
    and "incoming (stream self) = p # ps"
    and "pk_event p = Some raw"
  shows "prepare_event strm (Some raw) = Inr []
         \<and> (\<exists>self1. refill_current_events self = Returns () self1
               \<and> current_events self1 = [] \<and> incoming (stream self1) = ps
               \<and> peek self = Returns None self1)"
proof -
  note m = message_type_map_kinds [OF assms(2)]
  have g: "get_data_events_from_row_event s ev = Inr []" for s :: "('a, 'b) BinLogStreamReader"
    using assms(3) m by (simp add: get_data_events_from_row_event_def split: prod.splits)
  have n: "prepare_event s (Some raw) = Inr []" for s :: "('a, 'b) BinLogStreamReader"
    by (simp add: prepare_event_rows [OF assms(1)] g data_units_def)
  let ?self1 = "self\<lparr>stream := (stream self)\<lparr>log_pos := pk_log_pos p,
                   log_file := pk_log_file p, incoming := ps\<rparr>\<rparr>"
  have r: "refill_current_events self = Returns () ?self1"
    using assms(4,6) by (simp add: refill_current_events_def fetchone_Cons [OF assms(5)] n)
  have "peek self = Returns None ?self1"
    using assms(4) by (simp add: peek_def r)
  with r n assms(4) show ?thesis by simp
qed

theorem empty_rows_yield_nothing_witness:
  "peek
     \<lparr>current_events = [],
      stream = \<lparr>log_pos = 4, log_file = ''mysql-bin.000003'',
                incoming = [\<lparr>pk_event = Some (UpdateRowsEvent
                                \<lparr>schema = ''shop'', table = ''orders'',
                                 event_type = UPDATE_ROWS_EVENT_V2, rows = [],
                                 timestamp = 1460000000\<rparr>),
                             pk_log_pos = 107, pk_log_file = ''mysql-bin.000003''\<rparr>]\<rparr>\<rparr>
   = Returns (None :: (string, nat) buffered option)
       \<lparr>current_events = [],
        stream = \<lparr>log_pos = 107, log_file = ''mysql-bin.000003'', incoming = []\<rparr>\<rparr>"
proof -
  let ?ev = "\<lparr>schema = ''shop'', table = ''orders'',
                                 event_type = UPDATE_ROWS_EVENT_V2, rows = [] :: nat list,
                                 timestamp = 1460000000\<rparr>"
  let ?p = "\<lparr>pk_event = Some (UpdateRowsEvent ?ev),
             pk_log_pos = 107, pk_log_file = ''mysql-bin.000003''\<rparr> :: (string, nat) packet"
  let ?self = "\<lparr>current_events = [],
      stream = \<lparr>log_pos = 4, log_file = ''mysql-bin.000003'', incoming = [?p]\<rparr>\<rparr>"
  have h1: "UpdateRowsEvent ?ev \<in> {WriteRowsEvent ?ev, UpdateRowsEvent ?ev, DeleteRowsEvent ?ev}"
    by simp
  have h2: "event_type ?ev \<in> {WRITE_ROWS_EVENT_V2, UPDATE_ROWS_EVENT_V2, DELETE_ROWS_EVENT_V2}"
    by simp
  have h3: "rows ?ev = []" by simp
  have h4: "current_events ?self = []" by simp
  have h5: "incoming (stream ?self) = ?p # []" by simp
  have h6: "pk_event ?p = Some (UpdateRowsEvent ?ev)" by simp
  from empty_rows_yield_nothing [OF h1 h2 h3 h4 h5 h6] show ?thesis
    by (simp add: eval_defs)
qed

end
